theory Spec2Isabelle
  imports Complex_Main
begin

section \<open>Data model of \<^verbatim>\<open>app.py\<close>\<close>

text \<open>
  The two tables of the relational store, as the SQLAlchemy classes declare them. The
  column type \<^verbatim>\<open>Float\<close> is kept abstract: a price is a value of a type \<open>'f\<close>
  that the handlers store and copy; the one handler that computes with prices takes the
  floating-point zero, addition and integer-by-float multiplication as arguments, so
  nothing below rests on laws that floating-point arithmetic does not have.
  Python's \<^verbatim>\<open>int\<close> is \<open>int\<close>, \<^verbatim>\<open>str\<close> is \<open>string\<close>, and a nullable column or a field
  with default \<^verbatim>\<open>None\<close> is an \<open>option\<close>.
\<close>

text \<open>\<^verbatim>\<open>class ProductDB(Base)\<close>: a row of table \<^verbatim>\<open>products\<close>.\<close>

record 'f ProductDB =
  p_id :: int
  p_name :: string
  p_price :: 'f
  p_description :: "string option"

text \<open>
  \<^verbatim>\<open>class CartItemDB(Base)\<close>: a row of table \<^verbatim>\<open>cart_items\<close>. The only writer of
  \<^verbatim>\<open>product_id\<close> is \<^verbatim>\<open>add_to_cart\<close>, which stores its integer argument.
\<close>

record CartItemDB =
  c_id :: int
  c_product_id :: int
  c_quantity :: int

text \<open>The Pydantic schemas.\<close>

record 'f Product =
  id_field :: int
  name :: string
  price :: 'f
  description :: "string option"

record CartItem =
  product_id :: int
  quantity :: int

record 'f CartItemResponse =
  r_product_id :: int
  r_product_name :: string
  r_quantity :: int
  r_price_per_unit :: 'f
  r_price_as_per_count :: 'f

record 'f CartTotalResponse =
  items :: "'f CartItemResponse list"
  total_price :: 'f

text \<open>
  The store behind a \<^verbatim>\<open>Session\<close>: both tables in primary-key order of insertion, and
  the next value of each table's auto-increment primary key.
\<close>

record 'f db =
  products :: "'f ProductDB list"
  cart_items :: "CartItemDB list"
  products_auto_increment :: int
  cart_items_auto_increment :: int

definition empty_db :: "'f db" where
  "empty_db = \<lparr>products = [], cart_items = [],
     products_auto_increment = 1, cart_items_auto_increment = 1\<rparr>"

text \<open>
  What a route can raise: \<^verbatim>\<open>HTTPException(status_code, detail)\<close>; the
  \<^verbatim>\<open>AttributeError\<close> of reading \<^verbatim>\<open>.price\<close> of \<^verbatim>\<open>None\<close>; SQLAlchemy's
  \<^verbatim>\<open>InvalidRequestError\<close> when \<^verbatim>\<open>db.refresh\<close> finds no row; and FastAPI's
  \<^verbatim>\<open>ResponseValidationError\<close> when what the handler returns does not validate against
  the route's \<^verbatim>\<open>response_model\<close>. All but the first are answered with status 500.
\<close>

datatype error =
  HTTPException nat string | AttributeError | InvalidRequestError | ResponseValidationError

section \<open>Session operations\<close>

text \<open>\<^verbatim>\<open>db.query(ProductDB).filter(ProductDB.id == k).first()\<close>\<close>

definition query_product :: "int \<Rightarrow> 'f db \<Rightarrow> 'f ProductDB option" where
  "query_product k s = find (\<lambda>p. p_id p = k) (products s)"

text \<open>\<^verbatim>\<open>db.query(CartItemDB).filter(CartItemDB.id == k).first()\<close>\<close>

definition query_cart_item :: "int \<Rightarrow> 'f db \<Rightarrow> CartItemDB option" where
  "query_cart_item k s = find (\<lambda>c. c_id c = k) (cart_items s)"

text \<open>\<^verbatim>\<open>db.query(CartItemDB).filter(CartItemDB.product_id == k).first()\<close>\<close>

definition query_cart_item_by_product :: "int \<Rightarrow> 'f db \<Rightarrow> CartItemDB option" where
  "query_cart_item_by_product k s = find (\<lambda>c. c_product_id c = k) (cart_items s)"

text \<open>
  \<^verbatim>\<open>db.add(ProductDB(name=.., price=.., description=..)); db.commit()\<close>: the row is
  appended under the next auto-increment key, which is returned with the new store.
\<close>

definition insert_product :: "string \<Rightarrow> 'f \<Rightarrow> string option \<Rightarrow> 'f db \<Rightarrow> int \<times> 'f db" where
  "insert_product n pr d s =
     (let k = products_auto_increment s in
      (k, s\<lparr>products := products s @ [\<lparr>p_id = k, p_name = n, p_price = pr, p_description = d\<rparr>],
            products_auto_increment := k + 1\<rparr>))"

text \<open>\<^verbatim>\<open>db.add(CartItemDB(product_id=.., quantity=..)); db.commit()\<close>\<close>

definition insert_cart_item :: "int \<Rightarrow> int \<Rightarrow> 'f db \<Rightarrow> int \<times> 'f db" where
  "insert_cart_item pid q s =
     (let k = cart_items_auto_increment s in
      (k, s\<lparr>cart_items := cart_items s @ [\<lparr>c_id = k, c_product_id = pid, c_quantity = q\<rparr>],
            cart_items_auto_increment := k + 1\<rparr>))"

text \<open>
  \<^verbatim>\<open>cart_item.quantity += n; db.commit()\<close>: the unit of work writes the new value
  with \<^verbatim>\<open>UPDATE cart_items SET quantity = .. WHERE id = ..\<close>.
\<close>

definition update_cart_quantity :: "CartItemDB \<Rightarrow> int \<Rightarrow> 'f db \<Rightarrow> 'f db" where
  "update_cart_quantity cart_item n s =
     s\<lparr>cart_items :=
         map (\<lambda>c. if c_id c = c_id cart_item then c\<lparr>c_quantity := c_quantity cart_item + n\<rparr> else c)
           (cart_items s)\<rparr>"

text \<open>
  \<^verbatim>\<open>db.delete(product); db.commit()\<close>: \<^verbatim>\<open>DELETE FROM products WHERE id = ..\<close>, and the
  store deletes the cart rows that reference the product, by the foreign key's
  \<^verbatim>\<open>ondelete='CASCADE'\<close>.
\<close>

definition delete_product_row :: "'f ProductDB \<Rightarrow> 'f db \<Rightarrow> 'f db" where
  "delete_product_row product s =
     s\<lparr>products := filter (\<lambda>p. p_id p \<noteq> p_id product) (products s),
       cart_items := filter (\<lambda>c. c_product_id c \<noteq> p_id product) (cart_items s)\<rparr>"

text \<open>\<^verbatim>\<open>db.delete(cart_item); db.commit()\<close>: \<^verbatim>\<open>DELETE FROM cart_items WHERE id = ..\<close>\<close>

definition delete_cart_item_row :: "CartItemDB \<Rightarrow> 'f db \<Rightarrow> 'f db" where
  "delete_cart_item_row cart_item s =
     s\<lparr>cart_items := filter (\<lambda>c. c_id c \<noteq> c_id cart_item) (cart_items s)\<rparr>"

section \<open>Route handlers\<close>

text \<open>
  Every route takes the store and returns the store it leaves behind together with
  what it answers: the response, or \<open>Inl\<close> the exception raised.
\<close>

text \<open>
  The routes with \<^verbatim>\<open>response_model=Product\<close> or \<^verbatim>\<open>list[Product]\<close> return rows, and
  FastAPI validates each row against the schema \<^verbatim>\<open>Product\<close>, reading its attributes
  (\<^verbatim>\<open>from_attributes = True\<close>). The schema declares \<^verbatim>\<open>description: str = None\<close>: the
  default makes the field optional in a request, but a value that is read must be a
  string, so a row whose \<^verbatim>\<open>description\<close> is \<^verbatim>\<open>NULL\<close> does not validate. The columns
  \<^verbatim>\<open>id\<close>, \<^verbatim>\<open>name\<close> and \<^verbatim>\<open>price\<close> are not nullable and always validate.
\<close>

definition Product_of_row :: "'f ProductDB \<Rightarrow> 'f Product" where
  "Product_of_row r =
     \<lparr>id_field = p_id r, name = p_name r, price = p_price r, description = p_description r\<rparr>"

definition Product_model_validate :: "'f ProductDB \<Rightarrow> error + 'f Product" where
  "Product_model_validate r =
     (case p_description r of
        None \<Rightarrow> Inl ResponseValidationError
      | Some d \<Rightarrow> Inr (Product_of_row r))"

fun validate_product_list :: "'f ProductDB list \<Rightarrow> error + 'f Product list" where
  "validate_product_list [] = Inr []"
| "validate_product_list (r # rs) =
     (case Product_model_validate r of
        Inl e \<Rightarrow> Inl e
      | Inr p \<Rightarrow>
          (case validate_product_list rs of
             Inl e \<Rightarrow> Inl e
           | Inr ps \<Rightarrow> Inr (p # ps)))"

text \<open>
  \<^verbatim>\<open>create_products\<close>: the loop over the request's products, with the list
  \<^verbatim>\<open>created_products\<close> as accumulator. The \<^verbatim>\<open>id\<close> a request carries is not read.
  \<^verbatim>\<open>db.refresh(db_product)\<close> reads the row back by its primary key. Every insertion
  is committed inside the loop; the returned rows are validated against
  \<^verbatim>\<open>list[Product]\<close> after it.
\<close>

fun create_products_loop ::
  "'f Product list \<Rightarrow> 'f ProductDB list \<Rightarrow> 'f db \<Rightarrow> 'f db \<times> (error + 'f ProductDB list)" where
  "create_products_loop [] created_products s = (s, Inr created_products)"
| "create_products_loop (product # rest) created_products s =
     (let (k, s') = insert_product (name product) (price product) (description product) s in
      case query_product k s' of
        None \<Rightarrow> (s', Inl InvalidRequestError)
      | Some db_product \<Rightarrow> create_products_loop rest (created_products @ [db_product]) s')"

definition create_products ::
  "'f Product list \<Rightarrow> 'f db \<Rightarrow> 'f db \<times> (error + 'f Product list)" where
  "create_products ps s =
     (case create_products_loop ps [] s of
        (s', Inl e) \<Rightarrow> (s', Inl e)
      | (s', Inr created_products) \<Rightarrow> (s', validate_product_list created_products))"

definition get_products :: "'f db \<Rightarrow> 'f db \<times> (error + 'f Product list)" where
  "get_products s = (s, validate_product_list (products s))"

definition get_product :: "int \<Rightarrow> 'f db \<Rightarrow> 'f db \<times> (error + 'f Product)" where
  "get_product k s =
     (case query_product k s of
        None \<Rightarrow> (s, Inl (HTTPException 404 ''Product not found''))
      | Some product \<Rightarrow> (s, Product_model_validate product))"

definition delete_product :: "int \<Rightarrow> 'f db \<Rightarrow> 'f db \<times> (error + string)" where
  "delete_product k s =
     (case query_product k s of
        None \<Rightarrow> (s, Inl (HTTPException 404 ''Product not found''))
      | Some product \<Rightarrow> (delete_product_row product s, Inr ''Product deleted''))"

text \<open>
  \<^verbatim>\<open>add_to_cart\<close>: after the commit, \<^verbatim>\<open>db.refresh(cart_item)\<close> reads the row back by
  its primary key and the response is built from what was read.
\<close>

definition add_to_cart :: "int \<Rightarrow> int \<Rightarrow> 'f db \<Rightarrow> 'f db \<times> (error + CartItem)" where
  "add_to_cart pid q s =
     (case query_product pid s of
        None \<Rightarrow> (s, Inl (HTTPException 404 ''Product not found''))
      | Some product \<Rightarrow>
          (let (k, s') =
             (case query_cart_item_by_product pid s of
                Some cart_item \<Rightarrow> (c_id cart_item, update_cart_quantity cart_item q s)
              | None \<Rightarrow> insert_cart_item pid q s)
           in case query_cart_item k s' of
                None \<Rightarrow> (s', Inl InvalidRequestError)
              | Some cart_item \<Rightarrow>
                  (s', Inr \<lparr>product_id = c_product_id cart_item, quantity = c_quantity cart_item\<rparr>)))"

text \<open>
  \<^verbatim>\<open>get_cart_total_price\<close>: the loop over \<^verbatim>\<open>db.query(CartItemDB).all()\<close>, with
  \<^verbatim>\<open>total_price\<close> (here \<open>running_total\<close>) and \<^verbatim>\<open>items_response\<close> as accumulators. \<^verbatim>\<open>item.product\<close> loads the
  product by the row's \<^verbatim>\<open>product_id\<close> and is \<^verbatim>\<open>None\<close> when there is none, and then
  \<^verbatim>\<open>item.product.price\<close> raises. \<open>fadd\<close> is float addition, \<open>fmul\<close> the product of an
  \<^verbatim>\<open>int\<close> and a float.
\<close>

fun cart_total_loop ::
  "('f \<Rightarrow> 'f \<Rightarrow> 'f) \<Rightarrow> (int \<Rightarrow> 'f \<Rightarrow> 'f) \<Rightarrow> 'f db \<Rightarrow> CartItemDB list \<Rightarrow> 'f \<Rightarrow>
   'f CartItemResponse list \<Rightarrow> error + 'f CartTotalResponse" where
  "cart_total_loop fadd fmul s [] running_total items_response =
     Inr \<lparr>items = items_response, total_price = running_total\<rparr>"
| "cart_total_loop fadd fmul s (item # rest) running_total items_response =
     (case query_product (c_product_id item) s of
        None \<Rightarrow> Inl AttributeError
      | Some product \<Rightarrow>
          (let item_total = fmul (c_quantity item) (p_price product) in
           cart_total_loop fadd fmul s rest (fadd running_total item_total)
             (items_response @
                [\<lparr>r_product_id = p_id product, r_product_name = p_name product,
                  r_quantity = c_quantity item, r_price_per_unit = p_price product,
                  r_price_as_per_count = item_total\<rparr>])))"

definition get_cart_total_price ::
  "'f \<Rightarrow> ('f \<Rightarrow> 'f \<Rightarrow> 'f) \<Rightarrow> (int \<Rightarrow> 'f \<Rightarrow> 'f) \<Rightarrow> 'f db \<Rightarrow> 'f db \<times> (error + 'f CartTotalResponse)" where
  "get_cart_total_price fzero fadd fmul s =
     (s, cart_total_loop fadd fmul s (cart_items s) fzero [])"

definition remove_cart_item :: "int \<Rightarrow> 'f db \<Rightarrow> 'f db \<times> (error + CartItem)" where
  "remove_cart_item cart_item_id s =
     (case query_cart_item cart_item_id s of
        None \<Rightarrow> (s, Inl (HTTPException 404 ''Cart item not found''))
      | Some cart_item \<Rightarrow>
          (let pid = c_product_id cart_item;
               s1 = delete_cart_item_row cart_item s;
               s2 = (case query_product pid s1 of
                       Some product_to_delete \<Rightarrow> delete_product_row product_to_delete s1
                     | None \<Rightarrow> s1)
           in (s2, Inr \<lparr>product_id = pid, quantity = 0\<rparr>)))"

section \<open>Constraints of the schema and states of the system\<close>

text \<open>
  What the schema declares and the store enforces: \<^verbatim>\<open>primary_key=True\<close> on both
  \<^verbatim>\<open>id\<close> columns, the \<^verbatim>\<open>ForeignKey('products.id')\<close> of a cart row, and
  auto-increment keys that lie above every key in use.
\<close>

definition primary_key_ok :: "'f db \<Rightarrow> bool" where
  "primary_key_ok s \<longleftrightarrow>
     distinct (map p_id (products s)) \<and> distinct (map c_id (cart_items s))"

definition foreign_key_ok :: "'f db \<Rightarrow> bool" where
  "foreign_key_ok s \<longleftrightarrow>
     list_all (\<lambda>c. c_product_id c \<in> set (map p_id (products s))) (cart_items s)"

definition auto_increment_ok :: "'f db \<Rightarrow> bool" where
  "auto_increment_ok s \<longleftrightarrow>
     list_all (\<lambda>p. p_id p < products_auto_increment s) (products s) \<and>
     list_all (\<lambda>c. c_id c < cart_items_auto_increment s) (cart_items s)"

definition schema_ok :: "'f db \<Rightarrow> bool" where
  "schema_ok s \<longleftrightarrow> primary_key_ok s \<and> foreign_key_ok s \<and> auto_increment_ok s"

text \<open>The intended invariant that no constraint of the schema states.\<close>

definition one_row_per_product :: "'f db \<Rightarrow> bool" where
  "one_row_per_product s \<longleftrightarrow> distinct (map c_product_id (cart_items s))"

text \<open>
  The stores that requests to the seven routes of \<^verbatim>\<open>app.py\<close> lead to from the empty
  store. A request that raises leaves the store its route returns.
\<close>

inductive reachable :: "'f db \<Rightarrow> bool" where
  start: "reachable empty_db"
| after_create_products: "reachable s \<Longrightarrow> reachable (fst (create_products ps s))"
| after_get_products: "reachable s \<Longrightarrow> reachable (fst (get_products s))"
| after_get_product: "reachable s \<Longrightarrow> reachable (fst (get_product k s))"
| after_delete_product: "reachable s \<Longrightarrow> reachable (fst (delete_product k s))"
| after_add_to_cart: "reachable s \<Longrightarrow> reachable (fst (add_to_cart k q s))"
| after_get_cart_total_price:
    "reachable s \<Longrightarrow> reachable (fst (get_cart_total_price fzero fadd fmul s))"
| after_remove_cart_item: "reachable s \<Longrightarrow> reachable (fst (remove_cart_item k s))"

section \<open>The specification's words\<close>

text \<open>
  The item the specification asks for a cart row: product id, product name, quantity,
  current unit price, and the line total, quantity times the current price.
\<close>

definition spec_line_item ::
  "(int \<Rightarrow> 'f \<Rightarrow> 'f) \<Rightarrow> 'f db \<Rightarrow> CartItemDB \<Rightarrow> 'f CartItemResponse \<Rightarrow> bool" where
  "spec_line_item fmul s c r \<longleftrightarrow>
     (case query_product (c_product_id c) s of
        None \<Rightarrow> False
      | Some p \<Rightarrow>
          r = \<lparr>r_product_id = c_product_id c, r_product_name = p_name p,
               r_quantity = c_quantity c, r_price_per_unit = p_price p,
               r_price_as_per_count = fmul (c_quantity c) (p_price p)\<rparr>)"

text \<open>The rows a bulk create appends, the first under key \<open>k\<close>.\<close>

fun inserted_rows :: "int \<Rightarrow> 'f Product list \<Rightarrow> 'f ProductDB list" where
  "inserted_rows k [] = []"
| "inserted_rows k (p # ps) =
     \<lparr>p_id = k, p_name = name p, p_price = price p, p_description = description p\<rparr>
       # inserted_rows (k + 1) ps"

section \<open>The specification's example scenario\<close>

text \<open>
  Prices in the examples are real numbers with exact arithmetic; \<open>exact_mul\<close> is the
  product of a quantity and a price.
\<close>

definition exact_mul :: "int \<Rightarrow> real \<Rightarrow> real" where
  "exact_mul q p = of_int q * p"

definition widget :: "real Product" where
  "widget = \<lparr>id_field = 0, name = ''Widget'', price = 999 / 100, description = None\<rparr>"

definition gadget :: "real Product" where
  "gadget = \<lparr>id_field = 0, name = ''Gadget'', price = 5 / 2,
     description = Some ''A small gadget''\<rparr>"

text \<open>
  The store after the request that creates the widget and the request that adds two of
  it to the cart.
\<close>

definition widget_db :: "real db" where
  "widget_db =
     \<lparr>products = [\<lparr>p_id = 1, p_name = ''Widget'', p_price = 999 / 100, p_description = None\<rparr>],
      cart_items = [\<lparr>c_id = 1, c_product_id = 1, c_quantity = 2\<rparr>],
      products_auto_increment = 2, cart_items_auto_increment = 2\<rparr>"

section \<open>Queries\<close>

lemma query_product_None: "query_product k s = None \<longleftrightarrow> k \<notin> set (map p_id (products s))"
  by (auto simp: query_product_def find_None_iff)

lemma query_product_Some: "query_product k s = Some p \<Longrightarrow> p_id p = k \<and> p \<in> set (products s)"
  by (auto simp: query_product_def find_Some_iff)

lemma query_cart_item_None:
  "query_cart_item k s = None \<longleftrightarrow> k \<notin> set (map c_id (cart_items s))"
  by (auto simp: query_cart_item_def find_None_iff)

lemma query_cart_item_Some:
  "query_cart_item k s = Some c \<Longrightarrow> c_id c = k \<and> c \<in> set (cart_items s)"
  by (auto simp: query_cart_item_def find_Some_iff)

lemma query_cart_item_by_product_None:
  "query_cart_item_by_product k s = None \<longleftrightarrow> k \<notin> set (map c_product_id (cart_items s))"
  by (auto simp: query_cart_item_by_product_def find_None_iff)

lemma query_cart_item_by_product_Some:
  "query_cart_item_by_product k s = Some c \<Longrightarrow> c_product_id c = k \<and> c \<in> set (cart_items s)"
  by (auto simp: query_cart_item_by_product_def find_Some_iff)

lemma find_snoc:
  "find P (xs @ [y]) =
     (case find P xs of Some x \<Rightarrow> Some x | None \<Rightarrow> if P y then Some y else None)"
  by (induction xs) auto

lemma find_append_cases:
  "find P (xs @ ys) = (case find P xs of Some x \<Rightarrow> Some x | None \<Rightarrow> find P ys)"
  by (induction xs) auto

lemma find_by_key:
  assumes "distinct (map f xs)" "x \<in> set xs"
  shows "find (\<lambda>y. f y = f x) xs = Some x"
  using assms by (induction xs) (auto simp: rev_image_eqI)

lemma find_map_update:
  assumes "find (\<lambda>c. c_id c = k) xs = Some c0" and "\<And>c. c_id (f c) = c_id c"
  shows "find (\<lambda>c. c_id c = k) (map (\<lambda>c. if c_id c = k then f c else c) xs) = Some (f c0)"
  using assms by (induction xs) (auto split: if_splits)

lemma fst_create_products:
  "fst (create_products ps s) = fst (create_products_loop ps [] s)"
  by (simp add: create_products_def split: prod.splits sum.splits)

section \<open>The example scenario\<close>

lemma widget_db_run:
  "fst (add_to_cart 1 2 (fst (create_products [widget] empty_db))) = widget_db"
  by (simp add: fst_create_products insert_product_def query_product_def empty_db_def
      widget_def widget_db_def add_to_cart_def query_cart_item_by_product_def
      insert_cart_item_def query_cart_item_def Let_def)

lemma widget_db_reachable: "reachable widget_db"
proof -
  have "reachable (fst (add_to_cart 1 2 (fst (create_products [widget] empty_db))))"
    by (intro reachable.intros)
  then show ?thesis by (simp only: widget_db_run)
qed

lemma widget_db_schema_ok: "schema_ok widget_db"
  by (simp add: schema_ok_def primary_key_ok_def foreign_key_ok_def auto_increment_ok_def
      widget_db_def)

section \<open>Removing a cart item\<close>

text \<open>
  Claim C1. When the store holds a cart row with the given identifier,
  \<^verbatim>\<open>remove_cart_item\<close> succeeds with the row's product identifier, no cart row with
  that identifier is left, no product with the referenced identifier is left, and
  \<^verbatim>\<open>get_product\<close> on that identifier then raises 404.
\<close>

theorem remove_cart_item_deletes_product:
  assumes "query_cart_item cid s = Some cart_item"
  shows "snd (remove_cart_item cid s) = Inr \<lparr>product_id = c_product_id cart_item, quantity = 0\<rparr> \<and>
         cid \<notin> set (map c_id (cart_items (fst (remove_cart_item cid s)))) \<and>
         c_product_id cart_item \<notin> set (map p_id (products (fst (remove_cart_item cid s)))) \<and>
         get_product (c_product_id cart_item) (fst (remove_cart_item cid s)) =
           (fst (remove_cart_item cid s), Inl (HTTPException 404 ''Product not found''))"
proof -
  let ?pid = "c_product_id cart_item"
  let ?s1 = "delete_cart_item_row cart_item s"
  from assms have cid: "c_id cart_item = cid" by (simp add: query_cart_item_Some)
  show ?thesis
  proof (cases "query_product ?pid ?s1")
    case None
    then have r: "remove_cart_item cid s = (?s1, Inr \<lparr>product_id = ?pid, quantity = 0\<rparr>)"
      using assms by (simp add: remove_cart_item_def)
    have a: "cid \<notin> set (map c_id (cart_items ?s1))"
      using cid by (auto simp: delete_cart_item_row_def)
    from None have b: "?pid \<notin> set (map p_id (products ?s1))"
      by (simp add: query_product_None)
    from r a b None show ?thesis by (simp add: get_product_def)
  next
    case (Some p)
    let ?s2 = "delete_product_row p ?s1"
    from Some have r: "remove_cart_item cid s = (?s2, Inr \<lparr>product_id = ?pid, quantity = 0\<rparr>)"
      using assms by (simp add: remove_cart_item_def)
    from Some have pid: "p_id p = ?pid" by (simp add: query_product_Some)
    have a: "cid \<notin> set (map c_id (cart_items ?s2))"
      using cid by (auto simp: delete_cart_item_row_def delete_product_row_def)
    have b: "?pid \<notin> set (map p_id (products ?s2))"
      using pid by (auto simp: delete_product_row_def)
    then have c: "query_product ?pid ?s2 = None"
      by (simp add: query_product_None)
    from r a b c show ?thesis by (simp add: get_product_def)
  qed
qed

theorem remove_cart_item_deletes_product_witness:
  "query_cart_item 1 widget_db = Some \<lparr>c_id = 1, c_product_id = 1, c_quantity = 2\<rparr> \<and>
   snd (remove_cart_item 1 widget_db) = Inr \<lparr>product_id = 1, quantity = 0\<rparr> \<and>
   1 \<notin> set (map c_id (cart_items (fst (remove_cart_item 1 widget_db)))) \<and>
   1 \<notin> set (map p_id (products (fst (remove_cart_item 1 widget_db)))) \<and>
   get_product 1 (fst (remove_cart_item 1 widget_db)) =
     (fst (remove_cart_item 1 widget_db), Inl (HTTPException 404 ''Product not found''))"
proof -
  have h: "query_cart_item 1 widget_db = Some \<lparr>c_id = 1, c_product_id = 1, c_quantity = 2\<rparr>"
    by (simp add: query_cart_item_def widget_db_def)
  from remove_cart_item_deletes_product [OF h] h show ?thesis by simp
qed

section \<open>The cart total\<close>

text \<open>
  The loop, from any running total and any list of items built so far: when every row
  still to visit references a product, it appends one item per row, each as the
  specification describes it, and adds the line totals to the running total from left
  to right.
\<close>

lemma cart_total_loop_spec:
  assumes "list_all (\<lambda>c. c_product_id c \<in> set (map p_id (products s))) rows"
  shows "\<exists>its. cart_total_loop fadd fmul s rows acc sofar =
           Inr \<lparr>items = sofar @ its,
                total_price = foldl fadd acc (map r_price_as_per_count its)\<rparr> \<and>
           list_all2 (spec_line_item fmul s) rows its"
  using assms
proof (induction rows arbitrary: acc sofar)
  case Nil
  then show ?case by simp
next
  case (Cons c rows)
  from Cons.prems obtain p where p: "query_product (c_product_id c) s = Some p"
    by (cases "query_product (c_product_id c) s") (auto simp: query_product_None)
  then have pid: "p_id p = c_product_id c" by (simp add: query_product_Some)
  let ?t = "fmul (c_quantity c) (p_price p)"
  let ?r = "\<lparr>r_product_id = p_id p, r_product_name = p_name p,
               r_quantity = c_quantity c, r_price_per_unit = p_price p,
               r_price_as_per_count = ?t\<rparr>"
  from Cons.prems have "list_all (\<lambda>c. c_product_id c \<in> set (map p_id (products s))) rows"
    by simp
  from Cons.IH[OF this, of "fadd acc ?t" "sofar @ [?r]"]
  obtain its where its:
    "cart_total_loop fadd fmul s rows (fadd acc ?t) (sofar @ [?r]) =
       Inr \<lparr>items = (sofar @ [?r]) @ its,
            total_price = foldl fadd (fadd acc ?t) (map r_price_as_per_count its)\<rparr>"
    "list_all2 (spec_line_item fmul s) rows its"
    by blast
  have "spec_line_item fmul s c ?r" using p pid by (simp add: spec_line_item_def)
  with its p show ?case
    by (intro exI[of _ "?r # its"]) (simp add: Let_def)
qed

text \<open>
  Claim C2. In every store that satisfies its schema, \<^verbatim>\<open>get_cart_total_price\<close>
  leaves the store as it is and returns one item per cart row, in the order of the rows,
  with the product id, the product name, the quantity, the product's current price and
  the line total, quantity times current price; the total is the sum of the items' line
  totals, added from zero in the order of the rows.
\<close>

theorem get_cart_total_price_itemized:
  assumes "schema_ok s"
  shows "\<exists>its. get_cart_total_price fzero fadd fmul s =
           (s, Inr \<lparr>items = its,
                     total_price = foldl fadd fzero (map r_price_as_per_count its)\<rparr>) \<and>
           list_all2 (spec_line_item fmul s) (cart_items s) its"
proof -
  from assms have "list_all (\<lambda>c. c_product_id c \<in> set (map p_id (products s))) (cart_items s)"
    by (simp add: schema_ok_def foreign_key_ok_def)
  from cart_total_loop_spec[OF this, of fadd fmul fzero "[]"]
  show ?thesis by (simp add: get_cart_total_price_def)
qed

theorem get_cart_total_price_itemized_witness:
  "schema_ok widget_db \<and>
   (\<exists>its. get_cart_total_price 0 (+) exact_mul widget_db =
      (widget_db, Inr \<lparr>items = its,
                         total_price = foldl (+) 0 (map r_price_as_per_count its)\<rparr>) \<and>
      list_all2 (spec_line_item exact_mul widget_db) (cart_items widget_db) its) \<and>
   get_cart_total_price 0 (+) exact_mul widget_db =
     (widget_db,
      Inr \<lparr>items = [\<lparr>r_product_id = 1, r_product_name = ''Widget'', r_quantity = 2,
                      r_price_per_unit = 999 / 100, r_price_as_per_count = 1998 / 100\<rparr>],
           total_price = 1998 / 100\<rparr>)"
proof -
  have h: "schema_ok widget_db" by (rule widget_db_schema_ok)
  have v: "get_cart_total_price 0 (+) exact_mul widget_db =
     (widget_db,
      Inr \<lparr>items = [\<lparr>r_product_id = 1, r_product_name = ''Widget'', r_quantity = 2,
                      r_price_per_unit = 999 / 100, r_price_as_per_count = 1998 / 100\<rparr>],
           total_price = 1998 / 100\<rparr>)"
    by (simp add: get_cart_total_price_def widget_db_def query_product_def exact_mul_def
        Let_def)
  from get_cart_total_price_itemized [OF h, of 0 "(+)" exact_mul] h v show ?thesis
    by blast
qed

text \<open>
  Claim C9. When the cart has no rows, \<^verbatim>\<open>get_cart_total_price\<close> raises nothing and
  returns the empty list of items with the total it started from, \<^verbatim>\<open>0.0\<close>.
\<close>

theorem get_cart_total_price_empty:
  assumes "cart_items s = []"
  shows "get_cart_total_price fzero fadd fmul s = (s, Inr \<lparr>items = [], total_price = fzero\<rparr>)"
  using assms by (simp add: get_cart_total_price_def)

theorem get_cart_total_price_empty_witness:
  "cart_items (empty_db :: real db) = [] \<and>
   get_cart_total_price 0 (+) exact_mul (empty_db :: real db) =
     (empty_db, Inr \<lparr>items = [], total_price = 0\<rparr>)"
proof -
  have h: "cart_items (empty_db :: real db) = []" by (simp add: empty_db_def)
  from get_cart_total_price_empty [OF h, of 0 "(+)" exact_mul] h show ?thesis by simp
qed

section \<open>Adding to the cart\<close>

lemma add_to_cart_absent:
  assumes "pid \<notin> set (map p_id (products s))"
  shows "add_to_cart pid q s = (s, Inl (HTTPException 404 ''Product not found''))"
proof -
  from assms have "query_product pid s = None" by (simp add: query_product_None)
  then show ?thesis by (simp add: add_to_cart_def)
qed

lemma add_to_cart_insert:
  assumes "pid \<in> set (map p_id (products s))"
    and "query_cart_item_by_product pid s = None"
    and "list_all (\<lambda>c. c_id c < cart_items_auto_increment s) (cart_items s)"
  shows "add_to_cart pid q s =
           (snd (insert_cart_item pid q s), Inr \<lparr>product_id = pid, quantity = q\<rparr>)"
proof -
  let ?k = "cart_items_auto_increment s"
  let ?row = "\<lparr>c_id = ?k, c_product_id = pid, c_quantity = q\<rparr>"
  from assms(1) obtain p where p: "query_product pid s = Some p"
    by (cases "query_product pid s") (auto simp: query_product_None)
  have "find (\<lambda>c. c_id c = ?k) (cart_items s) = None"
    using assms(3) by (auto simp: list_all_iff find_None_iff)
  then have "find (\<lambda>c. c_id c = ?k) (cart_items s @ [?row]) = Some ?row"
    by (simp add: find_snoc)
  then have "query_cart_item ?k (snd (insert_cart_item pid q s)) = Some ?row"
    by (simp add: query_cart_item_def insert_cart_item_def Let_def)
  with p assms(2) show ?thesis
    by (simp add: add_to_cart_def insert_cart_item_def Let_def)
qed

lemma add_to_cart_update:
  assumes "pid \<in> set (map p_id (products s))"
    and "query_cart_item_by_product pid s = Some c"
    and "distinct (map c_id (cart_items s))"
  shows "add_to_cart pid q s =
           (update_cart_quantity c q s, Inr \<lparr>product_id = pid, quantity = c_quantity c + q\<rparr>)"
proof -
  from assms(1) obtain p where p: "query_product pid s = Some p"
    by (cases "query_product pid s") (auto simp: query_product_None)
  from assms(2) have c: "c_product_id c = pid" "c \<in> set (cart_items s)"
    by (simp_all add: query_cart_item_by_product_Some)
  from assms(3) c(2) have "find (\<lambda>x. c_id x = c_id c) (cart_items s) = Some c"
    by (rule find_by_key)
  then have "find (\<lambda>x. c_id x = c_id c)
      (map (\<lambda>x. if c_id x = c_id c then x\<lparr>c_quantity := c_quantity c + q\<rparr> else x) (cart_items s))
      = Some (c\<lparr>c_quantity := c_quantity c + q\<rparr>)"
    by (rule find_map_update) simp
  then have "query_cart_item (c_id c) (update_cart_quantity c q s) =
      Some (c\<lparr>c_quantity := c_quantity c + q\<rparr>)"
    by (simp add: query_cart_item_def update_cart_quantity_def)
  with p assms(2) c(1) show ?thesis
    by (simp add: add_to_cart_def)
qed

text \<open>
  Claim C4. In every store that satisfies its schema, \<^verbatim>\<open>add_to_cart\<close> raises the 404
  exactly when no product has the given identifier; when one has, it returns the product
  identifier with the quantity of the cart row after the request: the quantity of the
  row found for the product plus the requested amount, or the requested amount when
  there was no row.
\<close>

theorem add_to_cart_result:
  assumes "schema_ok s"
  shows "(snd (add_to_cart pid q s) = Inl (HTTPException 404 ''Product not found'')
            \<longleftrightarrow> pid \<notin> set (map p_id (products s))) \<and>
         (pid \<in> set (map p_id (products s)) \<longrightarrow>
            snd (add_to_cart pid q s) =
              Inr \<lparr>product_id = pid,
                   quantity = (case find (\<lambda>c. c_product_id c = pid) (cart_items s) of
                                 Some c \<Rightarrow> c_quantity c + q
                               | None \<Rightarrow> q)\<rparr>)"
proof (cases "pid \<in> set (map p_id (products s))")
  case False
  then show ?thesis using add_to_cart_absent[of pid s q] by simp
next
  case True
  from assms have d: "distinct (map c_id (cart_items s))"
    and a: "list_all (\<lambda>c. c_id c < cart_items_auto_increment s) (cart_items s)"
    by (simp_all add: schema_ok_def primary_key_ok_def auto_increment_ok_def)
  show ?thesis
  proof (cases "query_cart_item_by_product pid s")
    case None
    from add_to_cart_insert[OF True None a, of q] None True show ?thesis
      by (simp add: query_cart_item_by_product_def)
  next
    case (Some c)
    from add_to_cart_update[OF True Some d, of q] Some True show ?thesis
      by (simp add: query_cart_item_by_product_def)
  qed
qed

theorem add_to_cart_result_witness:
  "schema_ok widget_db \<and>
   7 \<notin> set (map p_id (products widget_db)) \<and>
   snd (add_to_cart 7 3 widget_db) = Inl (HTTPException 404 ''Product not found'') \<and>
   1 \<in> set (map p_id (products widget_db)) \<and>
   snd (add_to_cart 1 3 widget_db) = Inr \<lparr>product_id = 1, quantity = 5\<rparr>"
proof -
  have h: "schema_ok widget_db" by (rule widget_db_schema_ok)
  have a: "7 \<notin> set (map p_id (products widget_db))" "1 \<in> set (map p_id (products widget_db))"
    by (simp_all add: widget_db_def)
  have f: "find (\<lambda>c. c_product_id c = 1) (cart_items widget_db) =
             Some \<lparr>c_id = 1, c_product_id = 1, c_quantity = 2\<rparr>"
    by (simp add: widget_db_def)
  from add_to_cart_result [OF h, of 7 3] add_to_cart_result [OF h, of 1 3] h a f
  show ?thesis by simp
qed

text \<open>
  Claim C3, as stated, fails: in the store of the example scenario the widget already
  has a cart row of quantity 2, and adding 2 and then 3 leaves the row with quantity 7.
\<close>

theorem add_to_cart_twice_counterexample:
  "fst (add_to_cart 1 2 (fst (create_products [widget] empty_db))) = widget_db \<and>
   1 \<in> set (map p_id (products widget_db)) \<and>
   filter (\<lambda>c. c_product_id c = 1)
     (cart_items (fst (add_to_cart 1 3 (fst (add_to_cart 1 2 widget_db))))) =
     [\<lparr>c_id = 1, c_product_id = 1, c_quantity = 7\<rparr>] \<and>
   map c_quantity (filter (\<lambda>c. c_product_id c = 1)
     (cart_items (fst (add_to_cart 1 3 (fst (add_to_cart 1 2 widget_db)))))) \<noteq> [2 + 3]"
proof -
  have s1: "fst (add_to_cart 1 2 widget_db) =
      widget_db\<lparr>cart_items := [\<lparr>c_id = 1, c_product_id = 1, c_quantity = 4\<rparr>]\<rparr>"
    by (simp add: add_to_cart_def widget_db_def query_product_def
        query_cart_item_by_product_def update_cart_quantity_def query_cart_item_def)
  have s2: "fst (add_to_cart 1 3 (widget_db\<lparr>cart_items := [\<lparr>c_id = 1, c_product_id = 1, c_quantity = 4\<rparr>]\<rparr>)) =
      widget_db\<lparr>cart_items := [\<lparr>c_id = 1, c_product_id = 1, c_quantity = 7\<rparr>]\<rparr>"
    by (simp add: add_to_cart_def widget_db_def query_product_def
        query_cart_item_by_product_def update_cart_quantity_def query_cart_item_def)
  have p: "1 \<in> set (map p_id (products widget_db))" by (simp add: widget_db_def)
  from widget_db_run p show ?thesis by (simp add: s1 s2)
qed

text \<open>
  Claim C3, amended. For a product that exists and has no cart row yet, adding
  quantity \<open>q1\<close> and then quantity \<open>q2\<close> leaves exactly one cart row for the product,
  with quantity \<open>q1 + q2\<close>.
\<close>

theorem add_to_cart_twice_fresh:
  assumes "pid \<in> set (map p_id (products s))"
    and "pid \<notin> set (map c_product_id (cart_items s))"
  shows "filter (\<lambda>c. c_product_id c = pid)
           (cart_items (fst (add_to_cart pid q2 (fst (add_to_cart pid q1 s))))) =
         [\<lparr>c_id = cart_items_auto_increment s, c_product_id = pid, c_quantity = q1 + q2\<rparr>]"
proof -
  let ?k = "cart_items_auto_increment s"
  let ?row = "\<lparr>c_id = ?k, c_product_id = pid, c_quantity = q1\<rparr>"
  let ?s1 = "snd (insert_cart_item pid q1 s) :: 'a db"
  from assms(1) obtain p where p: "query_product pid s = Some p"
    by (cases "query_product pid s") (auto simp: query_product_None)
  from assms(2) have none: "query_cart_item_by_product pid s = None"
    by (simp add: query_cart_item_by_product_None)
  have s1: "fst (add_to_cart pid q1 s) = ?s1"
    using p none by (simp add: add_to_cart_def insert_cart_item_def Let_def split: option.splits)
  have p1: "query_product pid ?s1 = Some p"
    using p by (simp add: query_product_def insert_cart_item_def Let_def)
  have "find (\<lambda>c. c_product_id c = pid) (cart_items s @ [?row]) = Some ?row"
    using none by (simp add: find_snoc query_cart_item_by_product_def)
  then have f1: "query_cart_item_by_product pid ?s1 = Some ?row"
    by (simp add: query_cart_item_by_product_def insert_cart_item_def Let_def)
  have s2: "fst (add_to_cart pid q2 ?s1) = update_cart_quantity ?row q2 ?s1"
    using p1 f1 by (simp add: add_to_cart_def split: option.splits)
  have old: "\<And>v. filter (\<lambda>c. c_product_id c = pid)
       (map (\<lambda>c. if c_id c = ?k then c\<lparr>c_quantity := v\<rparr> else c) (cart_items s)) = []"
    using assms(2) by (auto simp: filter_empty_conv)
  show ?thesis
    unfolding s1 s2
    by (simp add: update_cart_quantity_def insert_cart_item_def Let_def old)
qed

theorem add_to_cart_twice_fresh_witness:
  "1 \<in> set (map p_id (products (fst (create_products [widget] empty_db)))) \<and>
   1 \<notin> set (map c_product_id (cart_items (fst (create_products [widget] empty_db)))) \<and>
   filter (\<lambda>c. c_product_id c = 1)
     (cart_items (fst (add_to_cart 1 3 (fst (add_to_cart 1 2
        (fst (create_products [widget] empty_db))))))) =
     [\<lparr>c_id = 1, c_product_id = 1, c_quantity = 5\<rparr>]"
proof -
  let ?s = "fst (create_products [widget] empty_db)"
  have s: "?s = \<lparr>products = [\<lparr>p_id = 1, p_name = ''Widget'', p_price = 999 / 100,
                    p_description = None\<rparr>],
                 cart_items = [], products_auto_increment = 2, cart_items_auto_increment = 1\<rparr>"
    by (simp add: fst_create_products insert_product_def query_product_def empty_db_def
        widget_def Let_def)
  have h1: "1 \<in> set (map p_id (products ?s))" by (simp add: s)
  have h2: "1 \<notin> set (map c_product_id (cart_items ?s))" by (simp add: s)
  have k: "cart_items_auto_increment ?s = 1" by (simp add: s)
  from add_to_cart_twice_fresh [OF h1 h2, of 3 2] h1 h2 k show ?thesis by simp
qed

section \<open>Creating products\<close>

lemma inserted_rows_ids:
  "map p_id (inserted_rows k ps) = map (\<lambda>i. k + int i) [0..<length ps]"
proof (induction ps arbitrary: k)
  case Nil
  then show ?case by simp
next
  case (Cons p ps)
  have "map (\<lambda>i. k + int i) [0..<Suc (length ps)] =
        k # map (\<lambda>i. k + 1 + int i) [0..<length ps]"
    by (simp add: upt_conv_Cons map_Suc_upt[symmetric] del: upt_Suc)
  with Cons show ?case by simp
qed

lemma inserted_rows_fields:
  "list_all2 (\<lambda>p r. p_name r = name p \<and> p_price r = price p \<and> p_description r = description p)
     ps (inserted_rows k ps)"
  by (induction ps arbitrary: k) simp_all

lemma query_product_snoc:
  "query_product k (s\<lparr>products := products s @ [r], products_auto_increment := n\<rparr>) =
     (case query_product k s of Some p \<Rightarrow> Some p | None \<Rightarrow> if p_id r = k then Some r else None)"
  by (simp add: query_product_def find_snoc)

text \<open>
  The loop, from a store whose product keys lie below the auto-increment value: it
  raises nothing, appends one row per requested product under consecutive keys, and
  returns those rows after the ones collected so far.
\<close>

lemma create_products_loop_spec:
  assumes "list_all (\<lambda>p. p_id p < products_auto_increment s) (products s)"
  shows "create_products_loop ps acc s =
           (s\<lparr>products := products s @ inserted_rows (products_auto_increment s) ps,
              products_auto_increment := products_auto_increment s + int (length ps)\<rparr>,
            Inr (acc @ inserted_rows (products_auto_increment s) ps))"
  using assms
proof (induction ps arbitrary: acc s)
  case Nil
  then show ?case by simp
next
  case (Cons p ps)
  let ?k = "products_auto_increment s"
  let ?r = "\<lparr>p_id = ?k, p_name = name p, p_price = price p, p_description = description p\<rparr>"
  let ?s1 = "s\<lparr>products := products s @ [?r], products_auto_increment := ?k + 1\<rparr>"
  have ins: "insert_product (name p) (price p) (description p) s = (?k, ?s1)"
    by (simp add: insert_product_def Let_def)
  have "query_product ?k s = None"
    using Cons.prems by (auto simp: query_product_None list_all_iff)
  then have q: "query_product ?k ?s1 = Some ?r"
    by (simp add: query_product_snoc)
  have ok1: "list_all (\<lambda>p. p_id p < products_auto_increment ?s1) (products ?s1)"
    using Cons.prems by (auto simp: list_all_iff)
  have "create_products_loop (p # ps) acc s = create_products_loop ps (acc @ [?r]) ?s1"
    using ins q by simp
  also have "\<dots> = (?s1\<lparr>products := products ?s1 @ inserted_rows (products_auto_increment ?s1) ps,
              products_auto_increment := products_auto_increment ?s1 + int (length ps)\<rparr>,
            Inr ((acc @ [?r]) @ inserted_rows (products_auto_increment ?s1) ps))"
    by (rule Cons.IH[OF ok1])
  finally show ?case by simp
qed

lemma get_created_product:
  assumes old: "list_all (\<lambda>p. p_id p < k) xs" and r: "r \<in> set (inserted_rows k ps)"
  shows "find (\<lambda>p. p_id p = p_id r) (xs @ inserted_rows k ps) = Some r"
proof -
  have ids: "map p_id (inserted_rows k ps) = map (\<lambda>i. k + int i) [0..<length ps]"
    by (rule inserted_rows_ids)
  have "distinct (map (\<lambda>i. k + int i) [0..<length ps])"
    by (simp add: distinct_map inj_on_def)
  with ids have d: "distinct (map p_id (inserted_rows k ps))" by simp
  from r have "p_id r \<in> set (map p_id (inserted_rows k ps))" by simp
  with ids have "k \<le> p_id r" by auto
  with old have "find (\<lambda>p. p_id p = p_id r) xs = None"
    by (auto simp: find_None_iff list_all_iff)
  moreover from d r have "find (\<lambda>p. p_id p = p_id r) (inserted_rows k ps) = Some r"
    by (rule find_by_key)
  ultimately show ?thesis by (simp add: find_append_cases)
qed

lemma validate_product_list_described:
  assumes "list_all (\<lambda>r. p_description r \<noteq> None) rows"
  shows "validate_product_list rows = Inr (map Product_of_row rows)"
  using assms by (induction rows) (auto simp: Product_model_validate_def)

lemma inserted_rows_described:
  assumes "list_all (\<lambda>p. description p \<noteq> None) ps"
  shows "list_all (\<lambda>r. p_description r \<noteq> None) (inserted_rows k ps)"
  using assms by (induction ps arbitrary: k) simp_all

text \<open>
  Claim C5 fails on the code for a product without a description, which the schema's
  own comment calls optional. Creating the widget from the empty store commits its row
  under key 1 with a \<^verbatim>\<open>NULL\<close> description, and then the row does not validate against
  the response model: the create request raises \<^verbatim>\<open>ResponseValidationError\<close> instead of
  returning the created product, and fetching product 1 afterwards raises it as well
  instead of returning the product.
\<close>

theorem create_without_description_fails:
  "create_products [widget] empty_db =
     (\<lparr>products = [\<lparr>p_id = 1, p_name = ''Widget'', p_price = 999 / 100,
                     p_description = None\<rparr>],
       cart_items = [], products_auto_increment = 2, cart_items_auto_increment = 1\<rparr>,
      Inl ResponseValidationError) \<and>
   get_product 1 (fst (create_products [widget] empty_db)) =
     (fst (create_products [widget] empty_db), Inl ResponseValidationError)"
proof -
  have c: "create_products [widget] empty_db =
     (\<lparr>products = [\<lparr>p_id = 1, p_name = ''Widget'', p_price = 999 / 100,
                     p_description = None\<rparr>],
       cart_items = [], products_auto_increment = 2, cart_items_auto_increment = 1\<rparr>,
      Inl ResponseValidationError)"
    by (simp add: create_products_def insert_product_def query_product_def empty_db_def
        widget_def Let_def Product_model_validate_def)
  have g: "get_product 1 (fst (create_products [widget] empty_db)) =
     (fst (create_products [widget] empty_db), Inl ResponseValidationError)"
    by (simp add: c get_product_def query_product_def Product_model_validate_def)
  show ?thesis by (rule conjI [OF c g])
qed

text \<open>
  When every requested product carries a description, in a store that satisfies its
  schema, the bulk create returns one product per requested product, in order, and
  fetching each by its returned identifier yields it again, with the requested name,
  price and description.
\<close>

lemma create_then_get_described:
  assumes "schema_ok s" and "list_all (\<lambda>p. description p \<noteq> None) ps"
  shows "\<exists>s' created.
           create_products ps s = (s', Inr created) \<and>
           list_all2 (\<lambda>p r. get_product (id_field r) s' = (s', Inr r) \<and>
                        name r = name p \<and> price r = price p \<and>
                        description r = description p) ps created"
proof -
  let ?k = "products_auto_increment s"
  let ?new = "inserted_rows ?k ps"
  let ?s' = "s\<lparr>products := products s @ ?new, products_auto_increment := ?k + int (length ps)\<rparr>"
  from assms(1) have old: "list_all (\<lambda>p. p_id p < ?k) (products s)"
    by (simp add: schema_ok_def auto_increment_ok_def)
  from assms(2) have d: "list_all (\<lambda>r. p_description r \<noteq> None) ?new"
    by (rule inserted_rows_described)
  have "create_products_loop ps [] s = (?s', Inr ?new)"
    using create_products_loop_spec[OF old, of ps "[]"] by simp
  then have c: "create_products ps s = (?s', Inr (map Product_of_row ?new))"
    using validate_product_list_described[OF d] by (simp add: create_products_def)
  have g: "get_product (p_id r) ?s' = (?s', Inr (Product_of_row r))" if "r \<in> set ?new" for r
  proof -
    from d that have "p_description r \<noteq> None" by (auto simp: list_all_iff)
    then show ?thesis
      using get_created_product[OF old that]
      by (auto simp: get_product_def query_product_def Product_model_validate_def)
  qed
  have f: "list_all2 (\<lambda>p r. p_name r = name p \<and> p_price r = price p \<and>
                       p_description r = description p) ps ?new"
    by (rule inserted_rows_fields)
  have "list_all2 (\<lambda>p r. get_product (id_field r) ?s' = (?s', Inr r) \<and>
                        name r = name p \<and> price r = price p \<and>
                        description r = description p) ps (map Product_of_row ?new)"
    unfolding list_all2_conv_all_nth
  proof (intro conjI allI impI)
    show "length ps = length (map Product_of_row ?new)"
      using f by (simp add: list_all2_lengthD)
  next
    fix i assume i: "i < length ps"
    from f have len: "length ?new = length ps" by (simp add: list_all2_lengthD)
    with i have mem: "?new ! i \<in> set ?new" by simp
    from f i have fi: "p_name (?new ! i) = name (ps ! i) \<and> p_price (?new ! i) = price (ps ! i) \<and>
        p_description (?new ! i) = description (ps ! i)"
      by (simp add: list_all2_conv_all_nth)
    from i len have m: "map Product_of_row ?new ! i = Product_of_row (?new ! i)" by simp
    have idf: "id_field (Product_of_row (?new ! i)) = p_id (?new ! i)"
      by (simp add: Product_of_row_def)
    show "get_product (id_field (map Product_of_row ?new ! i)) ?s' =
            (?s', Inr (map Product_of_row ?new ! i))"
      unfolding m idf by (rule g[OF mem])
    show "name (map Product_of_row ?new ! i) = name (ps ! i)"
      unfolding m using fi by (simp add: Product_of_row_def)
    show "price (map Product_of_row ?new ! i) = price (ps ! i)"
      unfolding m using fi by (simp add: Product_of_row_def)
    show "description (map Product_of_row ?new ! i) = description (ps ! i)"
      unfolding m using fi by (simp add: Product_of_row_def)
  qed
  with c show ?thesis by blast
qed

lemma create_then_get_described_example:
  "schema_ok widget_db \<and> list_all (\<lambda>p. description p \<noteq> None) [gadget] \<and>
   create_products [gadget] widget_db =
     (widget_db\<lparr>products :=
         [\<lparr>p_id = 1, p_name = ''Widget'', p_price = 999 / 100, p_description = None\<rparr>,
          \<lparr>p_id = 2, p_name = ''Gadget'', p_price = 5 / 2,
            p_description = Some ''A small gadget''\<rparr>],
        products_auto_increment := 3\<rparr>,
      Inr [\<lparr>id_field = 2, name = ''Gadget'', price = 5 / 2,
             description = Some ''A small gadget''\<rparr>]) \<and>
   snd (get_product 2 (fst (create_products [gadget] widget_db))) =
     Inr \<lparr>id_field = 2, name = ''Gadget'', price = 5 / 2,
           description = Some ''A small gadget''\<rparr>"
proof -
  have h: "schema_ok widget_db" by (rule widget_db_schema_ok)
  have d: "list_all (\<lambda>p. description p \<noteq> None) [gadget]" by (simp add: gadget_def)
  have c: "create_products [gadget] widget_db =
     (widget_db\<lparr>products :=
         [\<lparr>p_id = 1, p_name = ''Widget'', p_price = 999 / 100, p_description = None\<rparr>,
          \<lparr>p_id = 2, p_name = ''Gadget'', p_price = 5 / 2,
            p_description = Some ''A small gadget''\<rparr>],
        products_auto_increment := 3\<rparr>,
      Inr [\<lparr>id_field = 2, name = ''Gadget'', price = 5 / 2,
             description = Some ''A small gadget''\<rparr>])"
    by (simp add: create_products_def insert_product_def query_product_def widget_db_def
        gadget_def Let_def Product_model_validate_def Product_of_row_def)
  have g: "snd (get_product 2 (fst (create_products [gadget] widget_db))) =
     Inr \<lparr>id_field = 2, name = ''Gadget'', price = 5 / 2,
           description = Some ''A small gadget''\<rparr>"
    by (simp add: c get_product_def query_product_def Product_model_validate_def
        Product_of_row_def)
  show ?thesis by (rule conjI [OF h conjI [OF d conjI [OF c g]]])
qed

section \<open>Deleting a product\<close>

text \<open>
  Claim C6. \<^verbatim>\<open>delete_product\<close> raises 404 and leaves the store as it is when no product
  has the given identifier; otherwise it succeeds, no product with that identifier is
  left, and \<^verbatim>\<open>get_product\<close> on the identifier then raises 404.
\<close>

theorem delete_product_then_get:
  "(pid \<notin> set (map p_id (products s)) \<longrightarrow>
      delete_product pid s = (s, Inl (HTTPException 404 ''Product not found''))) \<and>
   (pid \<in> set (map p_id (products s)) \<longrightarrow>
      snd (delete_product pid s) = Inr ''Product deleted'' \<and>
      pid \<notin> set (map p_id (products (fst (delete_product pid s)))) \<and>
      get_product pid (fst (delete_product pid s)) =
        (fst (delete_product pid s), Inl (HTTPException 404 ''Product not found'')))"
proof (cases "query_product pid s")
  case None
  then have "pid \<notin> set (map p_id (products s))" by (simp add: query_product_None)
  with None show ?thesis by (simp add: delete_product_def)
next
  case (Some p)
  then have pid: "p_id p = pid" by (simp add: query_product_Some)
  have gone: "query_product pid (delete_product_row p s) = None"
    using pid by (auto simp: query_product_None delete_product_row_def)
  from Some have "pid \<in> set (map p_id (products s))"
    using query_product_None[of pid s] by simp
  with Some gone show ?thesis
    using gone[unfolded query_product_None]
    by (simp add: delete_product_def get_product_def)
qed

theorem delete_product_then_get_witness:
  "7 \<notin> set (map p_id (products widget_db)) \<and>
   delete_product 7 widget_db = (widget_db, Inl (HTTPException 404 ''Product not found'')) \<and>
   1 \<in> set (map p_id (products widget_db)) \<and>
   snd (delete_product 1 widget_db) = Inr ''Product deleted'' \<and>
   1 \<notin> set (map p_id (products (fst (delete_product 1 widget_db)))) \<and>
   get_product 1 (fst (delete_product 1 widget_db)) =
     (fst (delete_product 1 widget_db), Inl (HTTPException 404 ''Product not found''))"
proof -
  have a: "7 \<notin> set (map p_id (products widget_db))" "1 \<in> set (map p_id (products widget_db))"
    by (simp_all add: widget_db_def)
  from delete_product_then_get [of 7 widget_db] delete_product_then_get [of 1 widget_db] a
  show ?thesis by simp
qed

section \<open>What removing a cart item returns\<close>

text \<open>
  Claim C8. \<^verbatim>\<open>remove_cart_item\<close> raises 404 and leaves the store as it is when no cart
  row has the given identifier; otherwise it returns the product identifier of the row
  found under that identifier, with quantity 0.
\<close>

theorem remove_cart_item_result:
  "(cid \<notin> set (map c_id (cart_items s)) \<longrightarrow>
      remove_cart_item cid s = (s, Inl (HTTPException 404 ''Cart item not found''))) \<and>
   (cid \<in> set (map c_id (cart_items s)) \<longrightarrow>
      (\<exists>c. find (\<lambda>c. c_id c = cid) (cart_items s) = Some c \<and>
           snd (remove_cart_item cid s) = Inr \<lparr>product_id = c_product_id c, quantity = 0\<rparr>))"
proof (cases "query_cart_item cid s")
  case None
  then have "cid \<notin> set (map c_id (cart_items s))" by (simp add: query_cart_item_None)
  with None show ?thesis by (simp add: remove_cart_item_def)
next
  case (Some c)
  then have "cid \<in> set (map c_id (cart_items s))"
    using query_cart_item_None[of cid s] by simp
  with Some show ?thesis
    by (simp add: remove_cart_item_def query_cart_item_def Let_def)
qed

theorem remove_cart_item_result_witness:
  "7 \<notin> set (map c_id (cart_items widget_db)) \<and>
   remove_cart_item 7 widget_db = (widget_db, Inl (HTTPException 404 ''Cart item not found'')) \<and>
   1 \<in> set (map c_id (cart_items widget_db)) \<and>
   find (\<lambda>c. c_id c = 1) (cart_items widget_db) =
     Some \<lparr>c_id = 1, c_product_id = 1, c_quantity = 2\<rparr> \<and>
   snd (remove_cart_item 1 widget_db) = Inr \<lparr>product_id = 1, quantity = 0\<rparr>"
proof -
  have a: "7 \<notin> set (map c_id (cart_items widget_db))"
    and b: "1 \<in> set (map c_id (cart_items widget_db))"
    by (simp_all add: widget_db_def)
  have f: "find (\<lambda>c. c_id c = 1) (cart_items widget_db) =
     Some \<lparr>c_id = 1, c_product_id = 1, c_quantity = 2\<rparr>"
    by (simp add: widget_db_def)
  from remove_cart_item_result [of 7 widget_db] a
  have n: "remove_cart_item 7 widget_db =
      (widget_db, Inl (HTTPException 404 ''Cart item not found''))"
    by blast
  from remove_cart_item_result [of 1 widget_db] b f
  have r: "snd (remove_cart_item 1 widget_db) = Inr \<lparr>product_id = 1, quantity = 0\<rparr>"
    by auto
  show ?thesis by (rule conjI [OF a conjI [OF n conjI [OF b conjI [OF f r]]]])
qed

section \<open>Requests that raise not-found\<close>

text \<open>
  Claim C10. Whenever \<^verbatim>\<open>get_product\<close>, \<^verbatim>\<open>delete_product\<close>, \<^verbatim>\<open>add_to_cart\<close> or
  \<^verbatim>\<open>remove_cart_item\<close> raises an \<^verbatim>\<open>HTTPException\<close> with status 404, the store it
  leaves is the store it was given: both tables and both counters are unchanged.
\<close>

theorem not_found_leaves_store_unchanged:
  "(snd (get_product k s) = Inl (HTTPException 404 d) \<longrightarrow> fst (get_product k s) = s) \<and>
   (snd (delete_product k s) = Inl (HTTPException 404 d) \<longrightarrow> fst (delete_product k s) = s) \<and>
   (snd (add_to_cart k q s) = Inl (HTTPException 404 d) \<longrightarrow> fst (add_to_cart k q s) = s) \<and>
   (snd (remove_cart_item k s) = Inl (HTTPException 404 d) \<longrightarrow> fst (remove_cart_item k s) = s)"
proof (intro conjI impI)
  show "fst (get_product k s) = s"
    by (simp add: get_product_def split: option.splits)
  show "fst (delete_product k s) = s" if "snd (delete_product k s) = Inl (HTTPException 404 d)"
    using that by (simp add: delete_product_def split: option.splits)
  show "fst (add_to_cart k q s) = s" if "snd (add_to_cart k q s) = Inl (HTTPException 404 d)"
    using that by (simp add: add_to_cart_def Let_def split: option.splits prod.splits)
  show "fst (remove_cart_item k s) = s" if "snd (remove_cart_item k s) = Inl (HTTPException 404 d)"
    using that by (simp add: remove_cart_item_def Let_def split: option.splits)
qed

theorem not_found_leaves_store_unchanged_witness:
  "snd (get_product 7 widget_db) = Inl (HTTPException 404 ''Product not found'') \<and>
   fst (get_product 7 widget_db) = widget_db \<and>
   snd (delete_product 7 widget_db) = Inl (HTTPException 404 ''Product not found'') \<and>
   fst (delete_product 7 widget_db) = widget_db \<and>
   snd (add_to_cart 7 3 widget_db) = Inl (HTTPException 404 ''Product not found'') \<and>
   fst (add_to_cart 7 3 widget_db) = widget_db \<and>
   snd (remove_cart_item 7 widget_db) = Inl (HTTPException 404 ''Cart item not found'') \<and>
   fst (remove_cart_item 7 widget_db) = widget_db"
proof -
  have g: "snd (get_product 7 widget_db) = Inl (HTTPException 404 ''Product not found'')"
    by (simp add: get_product_def query_product_def widget_db_def)
  have dl: "snd (delete_product 7 widget_db) = Inl (HTTPException 404 ''Product not found'')"
    by (simp add: delete_product_def query_product_def widget_db_def)
  have a: "snd (add_to_cart 7 3 widget_db) = Inl (HTTPException 404 ''Product not found'')"
    by (simp add: add_to_cart_def query_product_def widget_db_def)
  have r: "snd (remove_cart_item 7 widget_db) = Inl (HTTPException 404 ''Cart item not found'')"
    by (simp add: remove_cart_item_def query_cart_item_def widget_db_def)
  note p = not_found_leaves_store_unchanged [of 7 widget_db "''Product not found''" 3]
  note c = not_found_leaves_store_unchanged [of 7 widget_db "''Cart item not found''" 3]
  from p g have g': "fst (get_product 7 widget_db) = widget_db" by blast
  from p dl have dl': "fst (delete_product 7 widget_db) = widget_db" by blast
  from p a have a': "fst (add_to_cart 7 3 widget_db) = widget_db" by blast
  from c r have r': "fst (remove_cart_item 7 widget_db) = widget_db" by blast
  show ?thesis
    by (rule conjI [OF g conjI [OF g' conjI [OF dl conjI [OF dl' conjI [OF a
        conjI [OF a' conjI [OF r r']]]]]]])
qed

section \<open>The store each handler leaves\<close>

lemma fst_add_to_cart:
  "fst (add_to_cart pid q s) =
     (case query_product pid s of
        None \<Rightarrow> s
      | Some p \<Rightarrow>
          (case query_cart_item_by_product pid s of
             Some c \<Rightarrow> update_cart_quantity c q s
           | None \<Rightarrow> snd (insert_cart_item pid q s)))"
  by (simp add: add_to_cart_def Let_def split: option.splits prod.splits)

lemma fst_remove_cart_item:
  "fst (remove_cart_item cid s) =
     (case query_cart_item cid s of
        None \<Rightarrow> s
      | Some c \<Rightarrow>
          (case query_product (c_product_id c) (delete_cart_item_row c s) of
             Some p \<Rightarrow> delete_product_row p (delete_cart_item_row c s)
           | None \<Rightarrow> delete_cart_item_row c s))"
  by (simp add: remove_cart_item_def Let_def split: option.splits)

lemma fst_delete_product:
  "fst (delete_product k s) =
     (case query_product k s of None \<Rightarrow> s | Some p \<Rightarrow> delete_product_row p s)"
  by (simp add: delete_product_def split: option.splits)

lemma cart_items_create_products_loop:
  "cart_items (fst (create_products_loop ps acc s)) = cart_items s"
  by (induction ps arbitrary: acc s)
     (simp_all add: insert_product_def Let_def split: option.splits)

section \<open>One cart row per product\<close>

lemma one_row_update: "one_row_per_product s \<Longrightarrow> one_row_per_product (update_cart_quantity c q s)"
  by (simp add: one_row_per_product_def update_cart_quantity_def o_def if_distrib cong: if_cong)

lemma one_row_insert:
  "one_row_per_product s \<Longrightarrow> query_cart_item_by_product pid s = None \<Longrightarrow>
   one_row_per_product (snd (insert_cart_item pid q s))"
  by (simp add: one_row_per_product_def insert_cart_item_def Let_def
      query_cart_item_by_product_None)

lemma one_row_delete_cart:
  "one_row_per_product s \<Longrightarrow> one_row_per_product (delete_cart_item_row c s)"
  by (simp add: one_row_per_product_def delete_cart_item_row_def distinct_map_filter)

lemma one_row_delete_product:
  "one_row_per_product s \<Longrightarrow> one_row_per_product (delete_product_row p s)"
  by (simp add: one_row_per_product_def delete_product_row_def distinct_map_filter)

text \<open>
  \<^verbatim>\<open>add_to_cart\<close> inserts a row only when its query found none for the product, and
  otherwise changes a quantity only.
\<close>

lemma one_row_add_to_cart:
  "one_row_per_product s \<Longrightarrow> one_row_per_product (fst (add_to_cart pid q s))"
  by (simp add: fst_add_to_cart one_row_update one_row_insert split: option.splits)

lemma one_row_remove_cart_item:
  "one_row_per_product s \<Longrightarrow> one_row_per_product (fst (remove_cart_item cid s))"
  by (simp add: fst_remove_cart_item one_row_delete_cart one_row_delete_product
      split: option.splits)

lemma one_row_delete:
  "one_row_per_product s \<Longrightarrow> one_row_per_product (fst (delete_product k s))"
  by (simp add: fst_delete_product one_row_delete_product split: option.splits)

lemma one_row_create:
  "one_row_per_product s \<Longrightarrow> one_row_per_product (fst (create_products ps s))"
  by (simp add: one_row_per_product_def fst_create_products cart_items_create_products_loop)

lemma reachable_one_row: "reachable s \<Longrightarrow> one_row_per_product s"
proof (induction rule: reachable.induct)
  case start
  show ?case by (simp add: one_row_per_product_def empty_db_def)
next
  case (after_create_products s ps)
  from after_create_products.IH show ?case by (rule one_row_create)
next
  case (after_get_products s)
  then show ?case by (simp add: get_products_def)
next
  case (after_get_product s k)
  then show ?case by (simp add: get_product_def split: option.splits)
next
  case (after_delete_product s k)
  from after_delete_product.IH show ?case by (rule one_row_delete)
next
  case (after_add_to_cart s k q)
  from after_add_to_cart.IH show ?case by (rule one_row_add_to_cart)
next
  case (after_get_cart_total_price s fzero fadd fmul)
  then show ?case by (simp add: get_cart_total_price_def)
next
  case (after_remove_cart_item s k)
  from after_remove_cart_item.IH show ?case by (rule one_row_remove_cart_item)
qed

text \<open>
  Claim C7. Every store that requests to the routes of \<^verbatim>\<open>app.py\<close> lead to from the
  empty store has at most one cart row per product identifier; and \<^verbatim>\<open>add_to_cart\<close>
  keeps that property in any store that has it.
\<close>

theorem one_cart_row_per_product:
  "(reachable s \<longrightarrow> one_row_per_product s) \<and>
   (one_row_per_product s0 \<longrightarrow> one_row_per_product (fst (add_to_cart pid q s0)))"
  by (simp add: reachable_one_row one_row_add_to_cart)

theorem one_cart_row_per_product_witness:
  "reachable widget_db \<and> one_row_per_product widget_db \<and>
   one_row_per_product (fst (add_to_cart 1 3 widget_db))"
proof -
  have r: "reachable widget_db" by (rule widget_db_reachable)
  note t = one_cart_row_per_product [of widget_db widget_db 1 3]
  from t r have a: "one_row_per_product widget_db" by blast
  from t a have b: "one_row_per_product (fst (add_to_cart 1 3 widget_db))" by blast
  show ?thesis by (rule conjI [OF r conjI [OF a b]])
qed

section \<open>Reachable stores satisfy the schema\<close>

lemma schema_ok_insert_product:
  assumes "schema_ok s"
  shows "schema_ok (snd (insert_product n pr d s))"
proof -
  from assms have "products_auto_increment s \<notin> p_id ` set (products s)"
    by (auto simp: schema_ok_def auto_increment_ok_def list_all_iff)
  with assms show ?thesis
    by (auto simp: schema_ok_def primary_key_ok_def foreign_key_ok_def auto_increment_ok_def
        insert_product_def Let_def list_all_iff)
qed

lemma schema_ok_create_products_loop:
  "schema_ok s \<Longrightarrow> schema_ok (fst (create_products_loop ps acc s))"
proof (induction ps arbitrary: acc s)
  case Nil
  then show ?case by simp
next
  case (Cons p ps)
  obtain k s1 where ins: "insert_product (name p) (price p) (description p) s = (k, s1)"
    by (cases "insert_product (name p) (price p) (description p) s")
  with schema_ok_insert_product[OF Cons.prems, of "name p" "price p" "description p"]
  have ok: "schema_ok s1" by simp
  show ?case
  proof (cases "query_product k s1")
    case None
    with ins ok show ?thesis by simp
  next
    case (Some r)
    with ins Cons.IH[OF ok, of "acc @ [r]"] show ?thesis by simp
  qed
qed

lemma schema_ok_delete_product_row:
  assumes "schema_ok s"
  shows "schema_ok (delete_product_row p s)"
  using assms
  by (auto simp: schema_ok_def primary_key_ok_def foreign_key_ok_def auto_increment_ok_def
      delete_product_row_def list_all_iff distinct_map_filter)

lemma schema_ok_delete_cart_item_row:
  assumes "schema_ok s"
  shows "schema_ok (delete_cart_item_row c s)"
  using assms
  by (auto simp: schema_ok_def primary_key_ok_def foreign_key_ok_def auto_increment_ok_def
      delete_cart_item_row_def list_all_iff distinct_map_filter)

lemma map_id_update:
  "map c_id (map (\<lambda>c. if P c then c\<lparr>c_quantity := v\<rparr> else c) xs) = map c_id xs"
  "map c_product_id (map (\<lambda>c. if P c then c\<lparr>c_quantity := v\<rparr> else c) xs) = map c_product_id xs"
  by (induction xs) auto

lemma schema_ok_update_cart_quantity:
  assumes "schema_ok s"
  shows "schema_ok (update_cart_quantity c q s)"
proof -
  have pk: "primary_key_ok (update_cart_quantity c q s)"
    using assms
    by (simp add: schema_ok_def primary_key_ok_def update_cart_quantity_def map_id_update
        del: map_map)
  have fk: "foreign_key_ok (update_cart_quantity c q s)"
    using assms
    by (auto simp: schema_ok_def foreign_key_ok_def update_cart_quantity_def list_all_iff)
  have ai: "auto_increment_ok (update_cart_quantity c q s)"
    using assms
    by (auto simp: schema_ok_def auto_increment_ok_def update_cart_quantity_def list_all_iff)
  from pk fk ai show ?thesis by (simp add: schema_ok_def)
qed

lemma schema_ok_insert_cart_item:
  assumes "schema_ok s" "query_product pid s = Some p"
  shows "schema_ok (snd (insert_cart_item pid q s))"
proof -
  from assms(1) have "cart_items_auto_increment s \<notin> c_id ` set (cart_items s)"
    by (auto simp: schema_ok_def auto_increment_ok_def list_all_iff)
  moreover from assms(2) have "pid \<in> p_id ` set (products s)"
    using query_product_None[of pid s] by simp
  ultimately show ?thesis
    using assms(1)
    by (auto simp: schema_ok_def primary_key_ok_def foreign_key_ok_def auto_increment_ok_def
        insert_cart_item_def Let_def list_all_iff)
qed

lemma schema_ok_add_to_cart: "schema_ok s \<Longrightarrow> schema_ok (fst (add_to_cart pid q s))"
  by (auto simp: fst_add_to_cart schema_ok_update_cart_quantity
      intro: schema_ok_insert_cart_item split: option.splits)

lemma schema_ok_remove_cart_item: "schema_ok s \<Longrightarrow> schema_ok (fst (remove_cart_item cid s))"
  by (simp add: fst_remove_cart_item schema_ok_delete_cart_item_row schema_ok_delete_product_row
      split: option.splits)

lemma schema_ok_delete_product: "schema_ok s \<Longrightarrow> schema_ok (fst (delete_product k s))"
  by (simp add: fst_delete_product schema_ok_delete_product_row split: option.splits)

lemma schema_ok_create_products: "schema_ok s \<Longrightarrow> schema_ok (fst (create_products ps s))"
  by (simp add: fst_create_products schema_ok_create_products_loop)

text \<open>
  The hypothesis \<open>schema_ok\<close> of the theorems above holds in every store the routes
  lead to from the empty store.
\<close>

lemma reachable_schema_ok: "reachable s \<Longrightarrow> schema_ok s"
proof (induction rule: reachable.induct)
  case start
  show ?case
    by (simp add: schema_ok_def primary_key_ok_def foreign_key_ok_def auto_increment_ok_def
        empty_db_def)
next
  case (after_create_products s ps)
  from after_create_products.IH show ?case by (rule schema_ok_create_products)
next
  case (after_get_products s)
  then show ?case by (simp add: get_products_def)
next
  case (after_get_product s k)
  then show ?case by (simp add: get_product_def split: option.splits)
next
  case (after_delete_product s k)
  from after_delete_product.IH show ?case by (rule schema_ok_delete_product)
next
  case (after_add_to_cart s k q)
  from after_add_to_cart.IH show ?case by (rule schema_ok_add_to_cart)
next
  case (after_get_cart_total_price s fzero fadd fmul)
  then show ?case by (simp add: get_cart_total_price_def)
next
  case (after_remove_cart_item s k)
  from after_remove_cart_item.IH show ?case by (rule schema_ok_remove_cart_item)
qed

end
